theory Spec2Isabelle
  imports Main "HOL-Library.Sublist"
begin

section \<open>Values that cross the client's boundary\<close>

text \<open>
  The client \<^verbatim>\<open>src/rdapi.py\<close> is dynamically typed. Arguments that callers pass to
  the resource-group methods are Python values; the ones the methods are documented for are
  \<^verbatim>\<open>None\<close>, strings, integers and booleans.
\<close>

datatype pyval = PNone | PStr string | PInt int | PBool bool

text \<open>Python's \<^verbatim>\<open>str(n)\<close> for a non-negative integer: its decimal digits.\<close>

fun str_nat :: "nat \<Rightarrow> string" where
  "str_nat n =
     (if n < 10 then [''0123456789'' ! n]
      else str_nat (n div 10) @ [''0123456789'' ! (n mod 10)])"

declare str_nat.simps [simp del]

definition str_int :: "int \<Rightarrow> string" where
  "str_int i = (if i < 0 then CHR ''-'' # str_nat (nat (- i)) else str_nat (nat i))"

text \<open>Python's \<^verbatim>\<open>str(v)\<close>.\<close>

fun py_str :: "pyval \<Rightarrow> string" where
  "py_str PNone = ''None''"
| "py_str (PStr s) = s"
| "py_str (PInt i) = str_int i"
| "py_str (PBool b) = (if b then ''True'' else ''False'')"

text \<open>
  What \<^verbatim>\<open>json.load\<close> and \<^verbatim>\<open>Response.json()\<close> produce. A decoded object is a
  Python \<^verbatim>\<open>dict\<close> whose keys are always strings; it is kept as an association list
  in insertion order, looked up with \<^const>\<open>map_of\<close>. A JSON number with a fraction or an
  exponent decodes to a \<^verbatim>\<open>float\<close>, kept here by its literal text: the client never
  computes with it.
\<close>

datatype json =
    JNull
  | JBool bool
  | JInt int
  | JFloat string
  | JStr string
  | JArr "json list"
  | JObj "(string \<times> json) list"

text \<open>
  The exceptions that can occur in the client: the ones of the \<^verbatim>\<open>requests\<close> library
  (\<^verbatim>\<open>HTTPError\<close> carries the status), the ones of the Python operations the handler
  applies to a decoded body, \<^verbatim>\<open>ValueError\<close> of the constructor and the failure of
  \<^verbatim>\<open>open\<close>.
\<close>

datatype py_exception =
    HTTPError nat
  | ConnectionError
  | Timeout
  | RequestException
  | JSONDecodeError
  | TypeError
  | KeyError
  | AttributeError
  | ValueError string
  | FileNotFoundError

text \<open>The exception classes named in the \<^verbatim>\<open>except\<close> clauses of \<^verbatim>\<open>RD.handler\<close>.\<close>

datatype exc_class =
    HTTPError_class
  | ConnectionError_class
  | Timeout_class
  | RequestException_class
  | Exception_class

text \<open>
  \<^verbatim>\<open>isinstance\<close>: every exception above derives from \<^verbatim>\<open>Exception\<close>; the first four
  derive from \<^verbatim>\<open>requests.exceptions.RequestException\<close>.
\<close>

fun isinstance :: "py_exception \<Rightarrow> exc_class \<Rightarrow> bool" where
  "isinstance e Exception_class = True"
| "isinstance (HTTPError n) c = (c = HTTPError_class \<or> c = RequestException_class)"
| "isinstance ConnectionError c = (c = ConnectionError_class \<or> c = RequestException_class)"
| "isinstance Timeout c = (c = Timeout_class \<or> c = RequestException_class)"
| "isinstance RequestException c = (c = RequestException_class)"
| "isinstance e c = False"

section \<open>Requests and responses\<close>

datatype http_method = GET | POST | PUT | DELETE

text \<open>
  The \<^verbatim>\<open>data=\<close> argument of a call into \<^verbatim>\<open>requests\<close>: absent, a dictionary of form
  fields, or an open file (its bytes).
\<close>

datatype body = NoBody | Form "(string \<times> pyval) list" | FileBody string

text \<open>
  A request as the client hands it to \<^verbatim>\<open>requests.get/post/put/delete\<close>: the keyword
  dictionaries are kept in the order of the call, with the \<^verbatim>\<open>None\<close> values the caller
  left in them.
\<close>

record request =
  http_method :: http_method
  url :: string
  headers :: "(string \<times> string) list"
  params :: "(string \<times> pyval) list"
  data :: body

text \<open>
  A \<^verbatim>\<open>requests.Response\<close>: the status, the raw body, and what \<^verbatim>\<open>.json()\<close> makes of
  the body (\<^const>\<open>None\<close> when the body is empty or not valid JSON, so that \<^verbatim>\<open>.json()\<close>
  raises).
\<close>

record response =
  status_code :: nat
  content :: string
  decoded :: "json option"

definition response_json :: "response \<Rightarrow> py_exception + json" where
  "response_json r = (case decoded r of None \<Rightarrow> Inl JSONDecodeError | Some j \<Rightarrow> Inr j)"

text \<open>
  \<^verbatim>\<open>Response.raise_for_status()\<close> of the library: an \<^verbatim>\<open>HTTPError\<close> for a status from
  400 to 599, nothing otherwise.
\<close>

definition raise_for_status :: "response \<Rightarrow> py_exception option" where
  "raise_for_status r =
     (if 400 \<le> status_code r \<and> status_code r < 600 then Some (HTTPError (status_code r))
      else None)"

section \<open>The client object and the world around it\<close>

text \<open>The attributes \<^verbatim>\<open>RD.__init__\<close> sets (lines 27 to 30).\<close>

record rd =
  rd_apitoken :: pyval
  base_url :: string
  header :: "(string \<times> string) list"
  error_codes :: json

text \<open>What the handler writes with \<^verbatim>\<open>logging.error\<close>, by the line that writes it:
  the exception of lines 62 to 68, the code and message of line 74, the exception of line 76.\<close>

datatype log_record =
    LogException py_exception
  | LogErrorCode json json
  | LogHandlingFailure py_exception

text \<open>
  The state a call runs in: the client object, the remote service (what a call into
  \<^verbatim>\<open>requests\<close> raises or returns for a request), the local files, and the two traces
  the client leaves: the requests it issued and the records it logged.
\<close>

record state =
  client :: rd
  network :: "request \<Rightarrow> py_exception + response"
  files :: "string \<Rightarrow> string option"
  sent :: "request list"
  logged :: "log_record list"

definition logging_error :: "log_record \<Rightarrow> state \<Rightarrow> state" where
  "logging_error m s = s\<lparr>logged := logged s @ [m]\<rparr>"

text \<open>A call into \<^verbatim>\<open>requests\<close>: the request is issued, and the service decides
  whether the call raises or returns a response.\<close>

definition requests_request :: "request \<Rightarrow> state \<Rightarrow> (py_exception + response) \<times> state" where
  "requests_request req s = (network s req, s\<lparr>sent := sent s @ [req]\<rparr>)"

section \<open>Construction\<close>

text \<open>
  \<^verbatim>\<open>RD.__init__\<close> (lines 20 to 30). \<open>getenv\<close> is the process environment.
  \<open>error_codes_json\<close> is the outcome of line 30,
  \<^verbatim>\<open>json.load(open(..., 'error_codes.json'))\<close>: the exception it raises when the file is
  absent (\<^verbatim>\<open>FileNotFoundError\<close>) or is not JSON (\<^verbatim>\<open>JSONDecodeError\<close>), or the value it
  returns. The line stands in no \<^verbatim>\<open>try\<close> statement, and it runs after the check of the
  token.
\<close>

definition RD_init :: "(string \<Rightarrow> string option) \<Rightarrow> py_exception + json \<Rightarrow> pyval \<Rightarrow> py_exception + rd" where
  "RD_init getenv error_codes_json api_token0 =
     (let api_token =
            (if api_token0 = PNone
             then (case getenv ''RD_APITOKEN'' of None \<Rightarrow> PNone | Some v \<Rightarrow> PStr v)
             else api_token0)
      in if api_token = PNone \<or> api_token = PStr ''''
         then Inl (ValueError ''API Token is empty, please provide a valid token.'')
         else (case error_codes_json of
                 Inl e \<Rightarrow> Inl e
               | Inr table \<Rightarrow>
                   Inr \<lparr>rd_apitoken = api_token,
                        base_url = ''https://api.real-debrid.com/rest/1.0'',
                        header = [(''Authorization'', ''Bearer '' @ py_str api_token)],
                        error_codes = table\<rparr>))"

section \<open>The response handler\<close>

text \<open>The operator \<^verbatim>\<open>key in j\<close> for a string \<open>key\<close>: key membership on a dict,
  element membership on a list, substring test on a string, \<^verbatim>\<open>TypeError\<close> otherwise.\<close>

fun py_contains :: "json \<Rightarrow> string \<Rightarrow> py_exception + bool" where
  "py_contains (JObj kvs) key = Inr (key \<in> set (map fst kvs))"
| "py_contains (JArr xs) key = Inr (JStr key \<in> set xs)"
| "py_contains (JStr t) key = Inr (sublist key t)"
| "py_contains j key = Inl TypeError"

text \<open>The subscript \<^verbatim>\<open>j[key]\<close> for a string \<open>key\<close>.\<close>

fun py_getitem :: "json \<Rightarrow> string \<Rightarrow> py_exception + json" where
  "py_getitem (JObj kvs) key = (case map_of kvs key of None \<Rightarrow> Inl KeyError | Some v \<Rightarrow> Inr v)"
| "py_getitem j key = Inl TypeError"

text \<open>
  The call \<^verbatim>\<open>table.get(code, default)\<close>. Only a dict has the method. A list or a dict
  as \<open>code\<close> is unhashable. The keys of a decoded JSON object are strings, and in Python
  a string equals no number, boolean or \<^verbatim>\<open>None\<close>: only a string \<open>code\<close> can be found.
\<close>

fun py_get :: "json \<Rightarrow> json \<Rightarrow> json \<Rightarrow> py_exception + json" where
  "py_get (JObj kvs) (JArr xs) dflt = Inl TypeError"
| "py_get (JObj kvs) (JObj ys) dflt = Inl TypeError"
| "py_get (JObj kvs) (JStr k) dflt = Inr (case map_of kvs k of None \<Rightarrow> dflt | Some v \<Rightarrow> v)"
| "py_get (JObj kvs) code dflt = Inr dflt"
| "py_get table code dflt = Inl AttributeError"

text \<open>The first \<^verbatim>\<open>try\<close> statement of \<^verbatim>\<open>RD.handler\<close> (lines 59 to 68): the
  \<^verbatim>\<open>except\<close> clauses in their order; an exception none of them names would propagate.\<close>

definition check_status :: "response \<Rightarrow> state \<Rightarrow> py_exception option \<times> state" where
  "check_status request s =
     (case raise_for_status request of
        None \<Rightarrow> (None, s)
      | Some err \<Rightarrow>
          if isinstance err HTTPError_class then (None, logging_error (LogException err) s)
          else if isinstance err ConnectionError_class then (None, logging_error (LogException err) s)
          else if isinstance err Timeout_class then (None, logging_error (LogException err) s)
          else if isinstance err RequestException_class then (None, logging_error (LogException err) s)
          else (Some err, s))"

text \<open>The body of the second \<^verbatim>\<open>try\<close> statement (lines 71 to 74): it raises, or
  logs nothing, or logs the code with the message found for it. \<^verbatim>\<open>request.json()\<close> is
  called twice, as in the source.\<close>

definition inspect_error_code :: "rd \<Rightarrow> response \<Rightarrow> py_exception + log_record list" where
  "inspect_error_code self request =
     (case response_json request of
        Inl e \<Rightarrow> Inl e
      | Inr j \<Rightarrow>
          (case py_contains j ''error_code'' of
             Inl e \<Rightarrow> Inl e
           | Inr False \<Rightarrow> Inr []
           | Inr True \<Rightarrow>
               (case response_json request of
                  Inl e \<Rightarrow> Inl e
                | Inr j' \<Rightarrow>
                    (case py_getitem j' ''error_code'' of
                       Inl e \<Rightarrow> Inl e
                     | Inr code \<Rightarrow>
                         (case py_get (error_codes self) code (JStr ''Unknown Error'') of
                            Inl e \<Rightarrow> Inl e
                          | Inr error_message \<Rightarrow> Inr [LogErrorCode code error_message])))))"

text \<open>The second \<^verbatim>\<open>try\<close> statement with its \<^verbatim>\<open>except Exception\<close> clause
  (lines 70 to 76).\<close>

definition check_error_code :: "response \<Rightarrow> state \<Rightarrow> py_exception option \<times> state" where
  "check_error_code request s =
     (case inspect_error_code (client s) request of
        Inr ms \<Rightarrow> (None, s\<lparr>logged := logged s @ ms\<rparr>)
      | Inl e \<Rightarrow>
          if isinstance e Exception_class then (None, logging_error (LogHandlingFailure e) s)
          else (Some e, s))"

text \<open>\<^verbatim>\<open>RD.handler\<close> (lines 58 to 78).\<close>

definition handler :: "response \<Rightarrow> state \<Rightarrow> (py_exception + response) \<times> state" where
  "handler request s =
     (case check_status request s of
        (Some e, s1) \<Rightarrow> (Inl e, s1)
      | (None, s1) \<Rightarrow>
          (case check_error_code request s1 of
             (Some e, s2) \<Rightarrow> (Inl e, s2)
           | (None, s2) \<Rightarrow> (Inr request, s2)))"

section \<open>The four request methods\<close>

text \<open>\<^verbatim>\<open>RD.get\<close> (lines 41 to 43). The call into \<^verbatim>\<open>requests\<close> stands outside any
  \<^verbatim>\<open>try\<close> statement: what it raises leaves the method.\<close>

definition RD_get :: "string \<Rightarrow> (string \<times> pyval) list \<Rightarrow> state \<Rightarrow> (py_exception + response) \<times> state" where
  "RD_get path options s =
     (case requests_request
             \<lparr>http_method = GET, url = base_url (client s) @ path, headers = header (client s),
              params = options, data = NoBody\<rparr> s of
        (Inl e, s') \<Rightarrow> (Inl e, s')
      | (Inr request, s') \<Rightarrow> handler request s')"

text \<open>\<^verbatim>\<open>RD.post\<close> (lines 45 to 47).\<close>

definition RD_post :: "string \<Rightarrow> (string \<times> pyval) list \<Rightarrow> state \<Rightarrow> (py_exception + response) \<times> state" where
  "RD_post path payload s =
     (case requests_request
             \<lparr>http_method = POST, url = base_url (client s) @ path, headers = header (client s),
              params = [], data = Form payload\<rparr> s of
        (Inl e, s') \<Rightarrow> (Inl e, s')
      | (Inr request, s') \<Rightarrow> handler request s')"

text \<open>\<^verbatim>\<open>RD.put\<close> (lines 49 to 52): \<^verbatim>\<open>open\<close> fails on a file that does not exist.\<close>

definition RD_put :: "string \<Rightarrow> string \<Rightarrow> (string \<times> pyval) list \<Rightarrow> state \<Rightarrow> (py_exception + response) \<times> state" where
  "RD_put path filepath payload s =
     (case files s filepath of
        None \<Rightarrow> (Inl FileNotFoundError, s)
      | Some file \<Rightarrow>
          (case requests_request
                  \<lparr>http_method = PUT, url = base_url (client s) @ path, headers = header (client s),
                   params = payload, data = FileBody file\<rparr> s of
             (Inl e, s') \<Rightarrow> (Inl e, s')
           | (Inr request, s') \<Rightarrow> handler request s'))"

text \<open>\<^verbatim>\<open>RD.delete\<close> (lines 54 to 56).\<close>

definition RD_delete :: "string \<Rightarrow> state \<Rightarrow> (py_exception + response) \<times> state" where
  "RD_delete path s =
     (case requests_request
             \<lparr>http_method = DELETE, url = base_url (client s) @ path, headers = header (client s),
              params = [], data = NoBody\<rparr> s of
        (Inl e, s') \<Rightarrow> (Inl e, s')
      | (Inr request, s') \<Rightarrow> handler request s')"

section \<open>The resource groups\<close>

text \<open>A resource-group method returns the response object or the decoded body.\<close>

datatype result = Raw response | Decoded json

text \<open>\<^verbatim>\<open>return self.rd.get(...)\<close>: the response as it is.\<close>

definition raw :: "(py_exception + response) \<times> state \<Rightarrow> (py_exception + result) \<times> state" where
  "raw c = (case c of (Inl e, s) \<Rightarrow> (Inl e, s) | (Inr r, s) \<Rightarrow> (Inr (Raw r), s))"

text \<open>\<^verbatim>\<open>return self.rd.get(...).json()\<close>: the decoding is outside the handler.\<close>

definition dot_json :: "(py_exception + response) \<times> state \<Rightarrow> (py_exception + result) \<times> state" where
  "dot_json c =
     (case c of
        (Inl e, s) \<Rightarrow> (Inl e, s)
      | (Inr r, s) \<Rightarrow>
          (case response_json r of Inl e \<Rightarrow> (Inl e, s) | Inr j \<Rightarrow> (Inr (Decoded j), s)))"

text \<open>A parameter declared \<^verbatim>\<open>name=None\<close>: \<^const>\<open>None\<close> when the caller leaves it
  out, \<open>Some v\<close> when the caller passes \<open>v\<close>.\<close>

definition dflt_None :: "pyval option \<Rightarrow> pyval" where
  "dflt_None a = (case a of None \<Rightarrow> PNone | Some v \<Rightarrow> v)"

subsection \<open>System (lines 86 to 97)\<close>

definition System_disable_token :: "state \<Rightarrow> (py_exception + result) \<times> state" where
  "System_disable_token s = raw (RD_get ''/disable_access_token'' [] s)"

definition System_time :: "state \<Rightarrow> (py_exception + result) \<times> state" where
  "System_time s = raw (RD_get ''/time'' [] s)"

definition System_iso_time :: "state \<Rightarrow> (py_exception + result) \<times> state" where
  "System_iso_time s = raw (RD_get ''/time/iso'' [] s)"

subsection \<open>User (lines 99 to 104)\<close>

definition User_get :: "state \<Rightarrow> (py_exception + result) \<times> state" where
  "User_get s = dot_json (RD_get ''/user'' [] s)"

subsection \<open>Unrestrict (lines 106 to 123)\<close>

definition Unrestrict_check :: "pyval \<Rightarrow> pyval option \<Rightarrow> state \<Rightarrow> (py_exception + result) \<times> state" where
  "Unrestrict_check link password s =
     dot_json (RD_post ''/unrestrict/check''
                 [(''link'', link), (''password'', dflt_None password)] s)"

definition Unrestrict_link :: "pyval \<Rightarrow> pyval option \<Rightarrow> pyval option \<Rightarrow> state \<Rightarrow> (py_exception + result) \<times> state" where
  "Unrestrict_link link password remote s =
     dot_json (RD_post ''/unrestrict/link''
                 [(''link'', link), (''password'', dflt_None password),
                  (''remote'', dflt_None remote)] s)"

definition Unrestrict_folder :: "pyval \<Rightarrow> state \<Rightarrow> (py_exception + result) \<times> state" where
  "Unrestrict_folder link s = raw (RD_post ''/unrestrict/folder'' [(''link'', link)] s)"

definition Unrestrict_container_file :: "string \<Rightarrow> state \<Rightarrow> (py_exception + result) \<times> state" where
  "Unrestrict_container_file filepath s = raw (RD_put ''/unrestrict/containerFile'' filepath [] s)"

definition Unrestrict_container_link :: "pyval \<Rightarrow> state \<Rightarrow> (py_exception + result) \<times> state" where
  "Unrestrict_container_link link s =
     raw (RD_post ''/unrestrict/containerLink'' [(''link'', link)] s)"

subsection \<open>Traffic (lines 125 to 133)\<close>

definition Traffic_get :: "state \<Rightarrow> (py_exception + result) \<times> state" where
  "Traffic_get s = dot_json (RD_get ''/traffic'' [] s)"

definition Traffic_details :: "pyval option \<Rightarrow> pyval option \<Rightarrow> state \<Rightarrow> (py_exception + result) \<times> state" where
  "Traffic_details start end' s =
     dot_json (RD_get ''/traffic/details''
                 [(''start'', dflt_None start), (''end'', dflt_None end')] s)"

subsection \<open>Streaming (lines 135 to 143)\<close>

definition Streaming_transcode :: "pyval \<Rightarrow> state \<Rightarrow> (py_exception + result) \<times> state" where
  "Streaming_transcode id' s = dot_json (RD_get (''/streaming/transcode/'' @ py_str id') [] s)"

definition Streaming_media_info :: "pyval \<Rightarrow> state \<Rightarrow> (py_exception + result) \<times> state" where
  "Streaming_media_info id' s = dot_json (RD_get (''/streaming/mediaInfos/'' @ py_str id') [] s)"

subsection \<open>Downloads (lines 145 to 153)\<close>

definition Downloads_get :: "pyval option \<Rightarrow> pyval option \<Rightarrow> pyval option \<Rightarrow> state \<Rightarrow> (py_exception + result) \<times> state" where
  "Downloads_get offset page limit s =
     raw (RD_get ''/downloads''
            [(''offset'', dflt_None offset), (''page'', dflt_None page),
             (''limit'', dflt_None limit)] s)"

definition Downloads_delete :: "pyval \<Rightarrow> state \<Rightarrow> (py_exception + result) \<times> state" where
  "Downloads_delete id' s = raw (RD_delete (''/downloads/delete/'' @ py_str id') s)"

subsection \<open>Torrents (lines 155 to 185)\<close>

definition Torrents_get :: "pyval option \<Rightarrow> pyval option \<Rightarrow> pyval option \<Rightarrow> pyval option \<Rightarrow> state \<Rightarrow> (py_exception + result) \<times> state" where
  "Torrents_get offset page limit filter' s =
     raw (RD_get ''/torrents''
            [(''offset'', dflt_None offset), (''page'', dflt_None page),
             (''limit'', dflt_None limit), (''filter'', dflt_None filter')] s)"

definition Torrents_info :: "pyval \<Rightarrow> state \<Rightarrow> (py_exception + result) \<times> state" where
  "Torrents_info id' s = raw (RD_get (''/torrents/info/'' @ py_str id') [] s)"

definition Torrents_instant_availability :: "pyval \<Rightarrow> state \<Rightarrow> (py_exception + result) \<times> state" where
  "Torrents_instant_availability hash s =
     raw (RD_get (''/torrents/instantAvailability/'' @ py_str hash) [] s)"

definition Torrents_active_count :: "state \<Rightarrow> (py_exception + result) \<times> state" where
  "Torrents_active_count s = raw (RD_get ''/torrents/activeCount'' [] s)"

definition Torrents_available_hosts :: "state \<Rightarrow> (py_exception + result) \<times> state" where
  "Torrents_available_hosts s = raw (RD_get ''/torrents/availableHosts'' [] s)"

definition Torrents_add_file :: "string \<Rightarrow> pyval option \<Rightarrow> state \<Rightarrow> (py_exception + result) \<times> state" where
  "Torrents_add_file filepath host s =
     raw (RD_put ''/torrents/addTorrent'' filepath [(''host'', dflt_None host)] s)"

definition Torrents_add_magnet :: "pyval \<Rightarrow> pyval option \<Rightarrow> state \<Rightarrow> (py_exception + result) \<times> state" where
  "Torrents_add_magnet magnet host s =
     (let magnet_link = ''magnet:?xt=urn:btih:'' @ py_str magnet
      in raw (RD_post ''/torrents/addMagnet''
                [(''magnet'', PStr magnet_link), (''host'', dflt_None host)] s))"

definition Torrents_select_files :: "pyval \<Rightarrow> pyval \<Rightarrow> state \<Rightarrow> (py_exception + result) \<times> state" where
  "Torrents_select_files id' files' s =
     raw (RD_post (''/torrents/selectFiles/'' @ py_str id') [(''files'', PStr (py_str files'))] s)"

definition Torrents_delete :: "pyval \<Rightarrow> state \<Rightarrow> (py_exception + result) \<times> state" where
  "Torrents_delete id' s = raw (RD_delete (''/torrents/delete/'' @ py_str id') s)"

subsection \<open>Hosts (lines 187 to 204)\<close>

definition Hosts_get :: "state \<Rightarrow> (py_exception + result) \<times> state" where
  "Hosts_get s = raw (RD_get ''/hosts'' [] s)"

definition Hosts_status :: "state \<Rightarrow> (py_exception + result) \<times> state" where
  "Hosts_status s = raw (RD_get ''/hosts/status'' [] s)"

definition Hosts_regex :: "state \<Rightarrow> (py_exception + result) \<times> state" where
  "Hosts_regex s = raw (RD_get ''/hosts/regex'' [] s)"

definition Hosts_regex_folder :: "state \<Rightarrow> (py_exception + result) \<times> state" where
  "Hosts_regex_folder s = raw (RD_get ''/hosts/regexFolder'' [] s)"

definition Hosts_domains :: "state \<Rightarrow> (py_exception + result) \<times> state" where
  "Hosts_domains s = raw (RD_get ''/hosts/domains'' [] s)"

subsection \<open>Settings (lines 206 to 226)\<close>

definition Settings_get :: "state \<Rightarrow> (py_exception + result) \<times> state" where
  "Settings_get s = raw (RD_get ''/settings'' [] s)"

definition Settings_update :: "pyval \<Rightarrow> pyval \<Rightarrow> state \<Rightarrow> (py_exception + result) \<times> state" where
  "Settings_update setting_name setting_value s =
     raw (RD_post ''/settings/update''
            [(''setting_name'', setting_name), (''setting_value'', setting_value)] s)"

definition Settings_convert_points :: "state \<Rightarrow> (py_exception + result) \<times> state" where
  "Settings_convert_points s = raw (RD_post ''/settings/convertPoints'' [] s)"

definition Settings_change_password :: "state \<Rightarrow> (py_exception + result) \<times> state" where
  "Settings_change_password s = raw (RD_post ''/settings/changePassword'' [] s)"

definition Settings_avatar_file :: "string \<Rightarrow> state \<Rightarrow> (py_exception + result) \<times> state" where
  "Settings_avatar_file filepath s = raw (RD_put ''/settings/avatarFile'' filepath [] s)"

definition Settings_avatar_delete :: "state \<Rightarrow> (py_exception + result) \<times> state" where
  "Settings_avatar_delete s = raw (RD_delete ''/settings/avatarDelete'' s)"

section \<open>Every operation of the client\<close>

text \<open>
  The calls a user of the client can make after construction, each with its arguments: the
  four request methods, the handler, and the methods of the nine resource groups.
\<close>

datatype operation =
    Op_get string "(string \<times> pyval) list"
  | Op_post string "(string \<times> pyval) list"
  | Op_put string string "(string \<times> pyval) list"
  | Op_delete string
  | Op_handler response
  | Op_System_disable_token
  | Op_System_time
  | Op_System_iso_time
  | Op_User_get
  | Op_Unrestrict_check pyval "pyval option"
  | Op_Unrestrict_link pyval "pyval option" "pyval option"
  | Op_Unrestrict_folder pyval
  | Op_Unrestrict_container_file string
  | Op_Unrestrict_container_link pyval
  | Op_Traffic_get
  | Op_Traffic_details "pyval option" "pyval option"
  | Op_Streaming_transcode pyval
  | Op_Streaming_media_info pyval
  | Op_Downloads_get "pyval option" "pyval option" "pyval option"
  | Op_Downloads_delete pyval
  | Op_Torrents_get "pyval option" "pyval option" "pyval option" "pyval option"
  | Op_Torrents_info pyval
  | Op_Torrents_instant_availability pyval
  | Op_Torrents_active_count
  | Op_Torrents_available_hosts
  | Op_Torrents_add_file string "pyval option"
  | Op_Torrents_add_magnet pyval "pyval option"
  | Op_Torrents_select_files pyval pyval
  | Op_Torrents_delete pyval
  | Op_Hosts_get
  | Op_Hosts_status
  | Op_Hosts_regex
  | Op_Hosts_regex_folder
  | Op_Hosts_domains
  | Op_Settings_get
  | Op_Settings_update pyval pyval
  | Op_Settings_convert_points
  | Op_Settings_change_password
  | Op_Settings_avatar_file string
  | Op_Settings_avatar_delete

fun perform :: "operation \<Rightarrow> state \<Rightarrow> (py_exception + result) \<times> state" where
  "perform (Op_get path options) s = raw (RD_get path options s)"
| "perform (Op_post path payload) s = raw (RD_post path payload s)"
| "perform (Op_put path filepath payload) s = raw (RD_put path filepath payload s)"
| "perform (Op_delete path) s = raw (RD_delete path s)"
| "perform (Op_handler request) s = raw (handler request s)"
| "perform Op_System_disable_token s = System_disable_token s"
| "perform Op_System_time s = System_time s"
| "perform Op_System_iso_time s = System_iso_time s"
| "perform Op_User_get s = User_get s"
| "perform (Op_Unrestrict_check link password) s = Unrestrict_check link password s"
| "perform (Op_Unrestrict_link link password remote) s = Unrestrict_link link password remote s"
| "perform (Op_Unrestrict_folder link) s = Unrestrict_folder link s"
| "perform (Op_Unrestrict_container_file filepath) s = Unrestrict_container_file filepath s"
| "perform (Op_Unrestrict_container_link link) s = Unrestrict_container_link link s"
| "perform Op_Traffic_get s = Traffic_get s"
| "perform (Op_Traffic_details start end') s = Traffic_details start end' s"
| "perform (Op_Streaming_transcode id') s = Streaming_transcode id' s"
| "perform (Op_Streaming_media_info id') s = Streaming_media_info id' s"
| "perform (Op_Downloads_get offset page limit) s = Downloads_get offset page limit s"
| "perform (Op_Downloads_delete id') s = Downloads_delete id' s"
| "perform (Op_Torrents_get offset page limit filter') s = Torrents_get offset page limit filter' s"
| "perform (Op_Torrents_info id') s = Torrents_info id' s"
| "perform (Op_Torrents_instant_availability hash) s = Torrents_instant_availability hash s"
| "perform Op_Torrents_active_count s = Torrents_active_count s"
| "perform Op_Torrents_available_hosts s = Torrents_available_hosts s"
| "perform (Op_Torrents_add_file filepath host) s = Torrents_add_file filepath host s"
| "perform (Op_Torrents_add_magnet magnet host) s = Torrents_add_magnet magnet host s"
| "perform (Op_Torrents_select_files id' files') s = Torrents_select_files id' files' s"
| "perform (Op_Torrents_delete id') s = Torrents_delete id' s"
| "perform Op_Hosts_get s = Hosts_get s"
| "perform Op_Hosts_status s = Hosts_status s"
| "perform Op_Hosts_regex s = Hosts_regex s"
| "perform Op_Hosts_regex_folder s = Hosts_regex_folder s"
| "perform Op_Hosts_domains s = Hosts_domains s"
| "perform Op_Settings_get s = Settings_get s"
| "perform (Op_Settings_update setting_name setting_value) s = Settings_update setting_name setting_value s"
| "perform Op_Settings_convert_points s = Settings_convert_points s"
| "perform Op_Settings_change_password s = Settings_change_password s"
| "perform (Op_Settings_avatar_file filepath) s = Settings_avatar_file filepath s"
| "perform Op_Settings_avatar_delete s = Settings_avatar_delete s"

text \<open>The methods whose \<^verbatim>\<open>return\<close> statement ends in \<^verbatim>\<open>.json()\<close>.\<close>

fun decodes_body :: "operation \<Rightarrow> bool" where
  "decodes_body Op_User_get = True"
| "decodes_body (Op_Unrestrict_check link password) = True"
| "decodes_body (Op_Unrestrict_link link password remote) = True"
| "decodes_body Op_Traffic_get = True"
| "decodes_body (Op_Traffic_details start end') = True"
| "decodes_body (Op_Streaming_transcode id') = True"
| "decodes_body (Op_Streaming_media_info id') = True"
| "decodes_body other = False"

section \<open>What the handler and the request methods compute\<close>

text \<open>The two \<^verbatim>\<open>try\<close> statements never let an exception out: each returns
  normally, with the records it logged appended.\<close>

lemma check_status_eq:
  "check_status r s =
     (None, s\<lparr>logged := logged s @
        (case raise_for_status r of None \<Rightarrow> [] | Some e \<Rightarrow> [LogException e])\<rparr>)"
  by (simp add: check_status_def raise_for_status_def logging_error_def)

lemma check_error_code_eq:
  "check_error_code r s =
     (None, s\<lparr>logged := logged s @
        (case inspect_error_code (client s) r of Inl e \<Rightarrow> [LogHandlingFailure e] | Inr ms \<Rightarrow> ms)\<rparr>)"
  by (simp add: check_error_code_def logging_error_def split: sum.split)

lemma handler_eq:
  "handler r s =
     (Inr r, s\<lparr>logged := logged s @
        (case raise_for_status r of None \<Rightarrow> [] | Some e \<Rightarrow> [LogException e]) @
        (case inspect_error_code (client s) r of Inl e \<Rightarrow> [LogHandlingFailure e] | Inr ms \<Rightarrow> ms)\<rparr>)"
  by (simp add: handler_def check_status_eq check_error_code_eq)

lemma snd_raw: "snd (raw c) = snd c"
  by (simp add: raw_def split: prod.split sum.split)

lemma snd_dot_json: "snd (dot_json c) = snd c"
  by (simp add: dot_json_def split: prod.split sum.split)

lemma client_RD_get: "client (snd (RD_get path options s)) = client s"
  by (simp add: RD_get_def requests_request_def handler_eq split: sum.split)

lemma client_RD_post: "client (snd (RD_post path payload s)) = client s"
  by (simp add: RD_post_def requests_request_def handler_eq split: sum.split)

lemma client_RD_put: "client (snd (RD_put path filepath payload s)) = client s"
  by (simp add: RD_put_def requests_request_def handler_eq split: sum.split option.split)

lemma client_RD_delete: "client (snd (RD_delete path s)) = client s"
  by (simp add: RD_delete_def requests_request_def handler_eq split: sum.split)

text \<open>The defining equations of the resource-group methods.\<close>

lemmas method_defs =
  System_disable_token_def System_time_def System_iso_time_def User_get_def
  Unrestrict_check_def Unrestrict_link_def Unrestrict_folder_def Unrestrict_container_file_def
  Unrestrict_container_link_def Traffic_get_def Traffic_details_def Streaming_transcode_def
  Streaming_media_info_def Downloads_get_def Downloads_delete_def Torrents_get_def
  Torrents_info_def Torrents_instant_availability_def Torrents_active_count_def
  Torrents_available_hosts_def Torrents_add_file_def Torrents_add_magnet_def
  Torrents_select_files_def Torrents_delete_def Hosts_get_def Hosts_status_def Hosts_regex_def
  Hosts_regex_folder_def Hosts_domains_def Settings_get_def Settings_update_def
  Settings_convert_points_def Settings_change_password_def Settings_avatar_file_def
  Settings_avatar_delete_def

lemma RD_get_eq:
  "RD_get path options s =
     (case network s \<lparr>http_method = GET, url = base_url (client s) @ path,
                       headers = header (client s), params = options, data = NoBody\<rparr> of
        Inl e \<Rightarrow> (Inl e, s\<lparr>sent := sent s @ [\<lparr>http_method = GET, url = base_url (client s) @ path,
                       headers = header (client s), params = options, data = NoBody\<rparr>]\<rparr>)
      | Inr r \<Rightarrow> handler r (s\<lparr>sent := sent s @ [\<lparr>http_method = GET, url = base_url (client s) @ path,
                       headers = header (client s), params = options, data = NoBody\<rparr>]\<rparr>))"
  by (simp add: RD_get_def requests_request_def split: sum.split)

lemma RD_post_eq:
  "RD_post path payload s =
     (case network s \<lparr>http_method = POST, url = base_url (client s) @ path,
                       headers = header (client s), params = [], data = Form payload\<rparr> of
        Inl e \<Rightarrow> (Inl e, s\<lparr>sent := sent s @ [\<lparr>http_method = POST, url = base_url (client s) @ path,
                       headers = header (client s), params = [], data = Form payload\<rparr>]\<rparr>)
      | Inr r \<Rightarrow> handler r (s\<lparr>sent := sent s @ [\<lparr>http_method = POST, url = base_url (client s) @ path,
                       headers = header (client s), params = [], data = Form payload\<rparr>]\<rparr>))"
  by (simp add: RD_post_def requests_request_def split: sum.split)

lemma RD_delete_eq:
  "RD_delete path s =
     (case network s \<lparr>http_method = DELETE, url = base_url (client s) @ path,
                       headers = header (client s), params = [], data = NoBody\<rparr> of
        Inl e \<Rightarrow> (Inl e, s\<lparr>sent := sent s @ [\<lparr>http_method = DELETE, url = base_url (client s) @ path,
                       headers = header (client s), params = [], data = NoBody\<rparr>]\<rparr>)
      | Inr r \<Rightarrow> handler r (s\<lparr>sent := sent s @ [\<lparr>http_method = DELETE, url = base_url (client s) @ path,
                       headers = header (client s), params = [], data = NoBody\<rparr>]\<rparr>))"
  by (simp add: RD_delete_def requests_request_def split: sum.split)

lemma RD_put_eq:
  "RD_put path filepath payload s =
     (case files s filepath of
        None \<Rightarrow> (Inl FileNotFoundError, s)
      | Some file \<Rightarrow>
     (case network s \<lparr>http_method = PUT, url = base_url (client s) @ path,
                       headers = header (client s), params = payload, data = FileBody file\<rparr> of
        Inl e \<Rightarrow> (Inl e, s\<lparr>sent := sent s @ [\<lparr>http_method = PUT, url = base_url (client s) @ path,
                       headers = header (client s), params = payload, data = FileBody file\<rparr>]\<rparr>)
      | Inr r \<Rightarrow> handler r (s\<lparr>sent := sent s @ [\<lparr>http_method = PUT, url = base_url (client s) @ path,
                       headers = header (client s), params = payload, data = FileBody file\<rparr>]\<rparr>)))"
  by (simp add: RD_put_def requests_request_def split: sum.split option.split)

text \<open>Every request a request method issues carries the client's header dictionary.\<close>

lemma sent_RD_get:
  "\<exists>reqs. sent (snd (RD_get path options s)) = sent s @ reqs \<and>
          (\<forall>req\<in>set reqs. headers req = header (client s))"
  by (simp add: RD_get_eq handler_eq split: sum.split)

lemma sent_RD_post:
  "\<exists>reqs. sent (snd (RD_post path payload s)) = sent s @ reqs \<and>
          (\<forall>req\<in>set reqs. headers req = header (client s))"
  by (simp add: RD_post_eq handler_eq split: sum.split)

lemma sent_RD_delete:
  "\<exists>reqs. sent (snd (RD_delete path s)) = sent s @ reqs \<and>
          (\<forall>req\<in>set reqs. headers req = header (client s))"
  by (simp add: RD_delete_eq handler_eq split: sum.split)

lemma sent_RD_put:
  "\<exists>reqs. sent (snd (RD_put path filepath payload s)) = sent s @ reqs \<and>
          (\<forall>req\<in>set reqs. headers req = header (client s))"
  by (simp add: RD_put_eq handler_eq split: sum.split option.split)

lemma sent_handler:
  "\<exists>reqs. sent (snd (handler request s)) = sent s @ reqs \<and>
          (\<forall>req\<in>set reqs. headers req = header (client s))"
  by (simp add: handler_eq)

lemma sent_perform:
  "\<exists>reqs. sent (snd (perform op s)) = sent s @ reqs \<and>
          (\<forall>req\<in>set reqs. headers req = header (client s))"
  by (cases op)
     (simp_all only: perform.simps method_defs Let_def snd_raw snd_dot_json sent_RD_get sent_RD_post
        sent_RD_put sent_RD_delete sent_handler)

lemma header_RD_init:
  "RD_init getenv codes tok = Inr c \<Longrightarrow>
   header c = [(''Authorization'', ''Bearer '' @ py_str (rd_apitoken c))]"
  by (auto simp: RD_init_def Let_def split: if_splits option.splits sum.splits)

text \<open>A body that \<^verbatim>\<open>.json()\<close> cannot decode makes the inspection raise at its first step.\<close>

lemma inspect_undecodable:
  "decoded r = None \<Longrightarrow> inspect_error_code c r = Inl JSONDecodeError"
  by (simp add: inspect_error_code_def response_json_def)

text \<open>An integer code is a key of no decoded table, whatever the table holds: the
  lookup gives the default.\<close>

lemma inspect_integer_code:
  assumes "error_codes c = JObj table" and "decoded r = Some (JObj body_kvs)"
    and "map_of body_kvs ''error_code'' = Some (JInt n)"
  shows "inspect_error_code c r = Inr [LogErrorCode (JInt n) (JStr ''Unknown Error'')]"
proof -
  have "(''error_code'', JInt n) \<in> set body_kvs"
    using assms(3) by (rule map_of_SomeD)
  then have "''error_code'' \<in> fst ` set body_kvs"
    by force
  then show ?thesis
    using assms by (simp add: inspect_error_code_def response_json_def)
qed

text \<open>What the call into \<^verbatim>\<open>requests\<close> raises reaches the caller of \<^verbatim>\<open>RD.get\<close>,
  and nothing is logged on the way.\<close>

lemma request_exception_leaves_RD_get:
  "network s \<lparr>http_method = GET, url = base_url (client s) @ path, headers = header (client s),
              params = options, data = NoBody\<rparr> = Inl e \<Longrightarrow>
   fst (RD_get path options s) = Inl e \<and> logged (snd (RD_get path options s)) = logged s"
  by (simp add: RD_get_eq)

text \<open>A service that answers every request with a body that is not JSON.\<close>

lemma dot_json_RD_get:
  assumes "\<forall>req. \<exists>r. network s req = Inr r \<and> decoded r = None"
  shows "fst (dot_json (RD_get path options s)) = Inl JSONDecodeError \<and>
         (\<exists>ms. logged (snd (dot_json (RD_get path options s))) =
                 logged s @ ms @ [LogHandlingFailure JSONDecodeError])"
proof -
  obtain r where r: "network s \<lparr>http_method = GET, url = base_url (client s) @ path,
      headers = header (client s), params = options, data = NoBody\<rparr> = Inr r" "decoded r = None"
    using assms by blast
  then show ?thesis
    by (simp add: RD_get_eq handler_eq dot_json_def response_json_def inspect_undecodable)
qed

lemma dot_json_RD_post:
  assumes "\<forall>req. \<exists>r. network s req = Inr r \<and> decoded r = None"
  shows "fst (dot_json (RD_post path payload s)) = Inl JSONDecodeError \<and>
         (\<exists>ms. logged (snd (dot_json (RD_post path payload s))) =
                 logged s @ ms @ [LogHandlingFailure JSONDecodeError])"
proof -
  obtain r where r: "network s \<lparr>http_method = POST, url = base_url (client s) @ path,
      headers = header (client s), params = [], data = Form payload\<rparr> = Inr r" "decoded r = None"
    using assms by blast
  then show ?thesis
    by (simp add: RD_post_eq handler_eq dot_json_def response_json_def inspect_undecodable)
qed

lemma raw_RD_get:
  assumes "\<forall>req. \<exists>r. network s req = Inr r \<and> decoded r = None"
  shows "\<exists>r. fst (raw (RD_get path options s)) = Inr (Raw r)"
proof -
  obtain r where r: "network s \<lparr>http_method = GET, url = base_url (client s) @ path,
      headers = header (client s), params = options, data = NoBody\<rparr> = Inr r"
    using assms by blast
  then show ?thesis
    by (simp add: RD_get_eq handler_eq raw_def)
qed

lemma raw_RD_post:
  assumes "\<forall>req. \<exists>r. network s req = Inr r \<and> decoded r = None"
  shows "\<exists>r. fst (raw (RD_post path payload s)) = Inr (Raw r)"
proof -
  obtain r where r: "network s \<lparr>http_method = POST, url = base_url (client s) @ path,
      headers = header (client s), params = [], data = Form payload\<rparr> = Inr r"
    using assms by blast
  then show ?thesis
    by (simp add: RD_post_eq handler_eq raw_def)
qed

lemma raw_RD_delete:
  assumes "\<forall>req. \<exists>r. network s req = Inr r \<and> decoded r = None"
  shows "\<exists>r. fst (raw (RD_delete path s)) = Inr (Raw r)"
proof -
  obtain r where r: "network s \<lparr>http_method = DELETE, url = base_url (client s) @ path,
      headers = header (client s), params = [], data = NoBody\<rparr> = Inr r"
    using assms by blast
  then show ?thesis
    by (simp add: RD_delete_eq handler_eq raw_def)
qed

lemma raw_RD_put:
  assumes "\<forall>req. \<exists>r. network s req = Inr r \<and> decoded r = None"
  shows "(\<exists>r. fst (raw (RD_put path filepath payload s)) = Inr (Raw r)) \<or>
         fst (raw (RD_put path filepath payload s)) = Inl FileNotFoundError"
proof (cases "files s filepath")
  case None
  then show ?thesis by (simp add: RD_put_eq raw_def)
next
  case (Some opened)
  obtain r where r: "network s \<lparr>http_method = PUT, url = base_url (client s) @ path,
      headers = header (client s), params = payload, data = FileBody opened\<rparr> = Inr r"
    using assms by blast
  with Some show ?thesis
    by (simp add: RD_put_eq handler_eq raw_def)
qed

lemma raw_handler: "\<exists>r. fst (raw (handler request s)) = Inr (Raw r)"
  by (simp add: handler_eq raw_def)

section \<open>The claims\<close>

text \<open>
  C8: no operation of the client (the four request methods, the handler, every
  resource-group method) changes the client object: the token, the base URL, the
  Authorization header and the error-code table are, after the call, what they were before.
\<close>

theorem configuration_unchanged: "client (snd (perform op s)) = client s"
  by (cases op)
     (simp_all add: method_defs snd_raw snd_dot_json client_RD_get client_RD_post client_RD_put
        client_RD_delete handler_eq)

theorem configuration_unchanged_witness:
  "client (snd (perform (Op_Torrents_add_magnet (PStr ''ABCDEF'') None)
      \<lparr>client = \<lparr>rd_apitoken = PStr ''TOKEN'', base_url = ''https://api.real-debrid.com/rest/1.0'',
                 header = [(''Authorization'', ''Bearer TOKEN'')], error_codes = JObj []\<rparr>,
       network = (\<lambda>req. Inr \<lparr>status_code = 201, content = ''{}'', decoded = Some (JObj [])\<rparr>),
       files = (\<lambda>name. None), sent = [], logged = []\<rparr>)) =
     \<lparr>rd_apitoken = PStr ''TOKEN'', base_url = ''https://api.real-debrid.com/rest/1.0'',
                 header = [(''Authorization'', ''Bearer TOKEN'')], error_codes = JObj []\<rparr>"
  using configuration_unchanged [of "Op_Torrents_add_magnet (PStr ''ABCDEF'') None"
      "\<lparr>client = \<lparr>rd_apitoken = PStr ''TOKEN'', base_url = ''https://api.real-debrid.com/rest/1.0'',
                 header = [(''Authorization'', ''Bearer TOKEN'')], error_codes = JObj []\<rparr>,
       network = (\<lambda>req. Inr \<lparr>status_code = 201, content = ''{}'', decoded = Some (JObj [])\<rparr>),
       files = (\<lambda>name. None), sent = [], logged = []\<rparr>"]
  by simp

text \<open>
  C9: \<^verbatim>\<open>RD.handler\<close> returns normally, and what it returns is the response it was
  given, whatever the status and the body are.
\<close>

theorem handler_returns_its_argument: "fst (handler request s) = Inr request"
  by (simp add: handler_eq)

theorem handler_returns_its_argument_witness:
  "fst (handler \<lparr>status_code = 503, content = ''unavailable'', decoded = None\<rparr>
      \<lparr>client = \<lparr>rd_apitoken = PStr ''TOKEN'', base_url = ''https://api.real-debrid.com/rest/1.0'',
                 header = [(''Authorization'', ''Bearer TOKEN'')], error_codes = JObj []\<rparr>,
       network = (\<lambda>req. Inr \<lparr>status_code = 201, content = ''{}'', decoded = Some (JObj [])\<rparr>),
       files = (\<lambda>name. None), sent = [], logged = []\<rparr>) =
     Inr \<lparr>status_code = 503, content = ''unavailable'', decoded = None\<rparr>"
  using handler_returns_its_argument [of "\<lparr>status_code = 503, content = ''unavailable'', decoded = None\<rparr>"
      "\<lparr>client = \<lparr>rd_apitoken = PStr ''TOKEN'', base_url = ''https://api.real-debrid.com/rest/1.0'',
                 header = [(''Authorization'', ''Bearer TOKEN'')], error_codes = JObj []\<rparr>,
       network = (\<lambda>req. Inr \<lparr>status_code = 201, content = ''{}'', decoded = Some (JObj [])\<rparr>),
       files = (\<lambda>name. None), sent = [], logged = []\<rparr>"]
  by simp

text \<open>
  C4: for a client built by \<^verbatim>\<open>RD.__init__\<close>, every request that any operation issues
  carries an \<^verbatim>\<open>Authorization\<close> header whose value is \<^verbatim>\<open>Bearer\<close>, a space, and the
  client's token.
\<close>

theorem authorization_header_on_every_request:
  assumes "RD_init getenv codes tok = Inr c" and "client s = c"
  shows "\<exists>reqs. sent (snd (perform op s)) = sent s @ reqs \<and>
           (\<forall>req\<in>set reqs.
              map_of (headers req) ''Authorization'' = Some (''Bearer '' @ py_str (rd_apitoken c)))"
proof -
  obtain reqs where r: "sent (snd (perform op s)) = sent s @ reqs"
      "\<forall>req\<in>set reqs. headers req = header (client s)"
    using sent_perform by blast
  have "header (client s) = [(''Authorization'', ''Bearer '' @ py_str (rd_apitoken c))]"
    using assms header_RD_init by blast
  with r show ?thesis by simp
qed

theorem authorization_header_on_every_request_witness:
  "RD_init (\<lambda>name. None) (Inr (JObj [])) (PStr ''TOKEN'') =
     Inr \<lparr>rd_apitoken = PStr ''TOKEN'', base_url = ''https://api.real-debrid.com/rest/1.0'',
          header = [(''Authorization'', ''Bearer TOKEN'')], error_codes = JObj []\<rparr> \<and>
   sent (snd (perform (Op_get ''/user'' [])
      \<lparr>client = \<lparr>rd_apitoken = PStr ''TOKEN'', base_url = ''https://api.real-debrid.com/rest/1.0'',
                 header = [(''Authorization'', ''Bearer TOKEN'')], error_codes = JObj []\<rparr>,
       network = (\<lambda>req. Inr \<lparr>status_code = 200, content = ''{}'', decoded = Some (JObj [])\<rparr>),
       files = (\<lambda>name. None), sent = [], logged = []\<rparr>)) =
     [\<lparr>http_method = GET, url = ''https://api.real-debrid.com/rest/1.0/user'',
       headers = [(''Authorization'', ''Bearer TOKEN'')], params = [], data = NoBody\<rparr>] \<and>
   (\<exists>reqs. sent (snd (perform (Op_get ''/user'' [])
      \<lparr>client = \<lparr>rd_apitoken = PStr ''TOKEN'', base_url = ''https://api.real-debrid.com/rest/1.0'',
                 header = [(''Authorization'', ''Bearer TOKEN'')], error_codes = JObj []\<rparr>,
       network = (\<lambda>req. Inr \<lparr>status_code = 200, content = ''{}'', decoded = Some (JObj [])\<rparr>),
       files = (\<lambda>name. None), sent = [], logged = []\<rparr>)) = [] @ reqs \<and>
     (\<forall>req\<in>set reqs. map_of (headers req) ''Authorization'' = Some ''Bearer TOKEN''))"
  using authorization_header_on_every_request
    [of "\<lambda>name. None" "Inr (JObj [])" "PStr ''TOKEN''"
        "\<lparr>rd_apitoken = PStr ''TOKEN'', base_url = ''https://api.real-debrid.com/rest/1.0'',
          header = [(''Authorization'', ''Bearer TOKEN'')], error_codes = JObj []\<rparr>"
        "\<lparr>client = \<lparr>rd_apitoken = PStr ''TOKEN'', base_url = ''https://api.real-debrid.com/rest/1.0'',
                 header = [(''Authorization'', ''Bearer TOKEN'')], error_codes = JObj []\<rparr>,
       network = (\<lambda>req. Inr \<lparr>status_code = 200, content = ''{}'', decoded = Some (JObj [])\<rparr>),
       files = (\<lambda>name. None), sent = [], logged = []\<rparr>"
        "Op_get ''/user'' []"]
  by (simp add: RD_init_def snd_raw RD_get_eq handler_eq)

text \<open>
  C1: a response whose body holds \<^verbatim>\<open>"error_code": 8\<close>, handled by a client whose table
  has the entry \<^verbatim>\<open>"8"\<close>. The handler logs the HTTP error and then the code with the
  message \<^verbatim>\<open>Unknown Error\<close>, not the message of the table: the code is the integer 8
  and the key is the string \<^verbatim>\<open>"8"\<close>.
\<close>

theorem handler_integer_code_reports_unknown_error:
  \<open>RD_init (\<lambda>name. None) (Inr (JObj [(''8'', JStr ''Bad token (expired, invalid)'')]))
     (PStr ''TOKEN'') =
     Inr \<lparr>rd_apitoken = PStr ''TOKEN'', base_url = ''https://api.real-debrid.com/rest/1.0'',
          header = [(''Authorization'', ''Bearer TOKEN'')],
          error_codes = JObj [(''8'', JStr ''Bad token (expired, invalid)'')]\<rparr> \<and>
   logged (snd (handler
      \<lparr>status_code = 401, content = ''{"error": "bad_token", "error_code": 8}'',
       decoded = Some (JObj [(''error'', JStr ''bad_token''), (''error_code'', JInt 8)])\<rparr>
      \<lparr>client = \<lparr>rd_apitoken = PStr ''TOKEN'', base_url = ''https://api.real-debrid.com/rest/1.0'',
                 header = [(''Authorization'', ''Bearer TOKEN'')],
                 error_codes = JObj [(''8'', JStr ''Bad token (expired, invalid)'')]\<rparr>,
       network = (\<lambda>req. Inl ConnectionError), files = (\<lambda>name. None), sent = [], logged = []\<rparr>)) =
     [LogException (HTTPError 401), LogErrorCode (JInt 8) (JStr ''Unknown Error'')]\<close>
  by (simp add: RD_init_def handler_eq raise_for_status_def inspect_error_code_def response_json_def)

text \<open>
  C2: when the call into \<^verbatim>\<open>requests\<close> raises \<^verbatim>\<open>ConnectionError\<close> or \<^verbatim>\<open>Timeout\<close>,
  the exception leaves \<^verbatim>\<open>RD.get\<close>, \<^verbatim>\<open>RD.post\<close>, \<^verbatim>\<open>RD.delete\<close> and \<^verbatim>\<open>RD.put\<close>: no response is
  returned, and nothing is logged.
\<close>

theorem connection_error_leaves_request_methods:
  "fst (RD_get ''/user'' []
      \<lparr>client = \<lparr>rd_apitoken = PStr ''TOKEN'', base_url = ''https://api.real-debrid.com/rest/1.0'',
                 header = [(''Authorization'', ''Bearer TOKEN'')], error_codes = JObj []\<rparr>,
       network = (\<lambda>req. Inl ConnectionError), files = (\<lambda>name. None), sent = [], logged = []\<rparr>) =
     Inl ConnectionError \<and>
   logged (snd (RD_get ''/user'' []
      \<lparr>client = \<lparr>rd_apitoken = PStr ''TOKEN'', base_url = ''https://api.real-debrid.com/rest/1.0'',
                 header = [(''Authorization'', ''Bearer TOKEN'')], error_codes = JObj []\<rparr>,
       network = (\<lambda>req. Inl ConnectionError), files = (\<lambda>name. None), sent = [], logged = []\<rparr>)) = [] \<and>
   fst (RD_post ''/settings/convertPoints'' []
      \<lparr>client = \<lparr>rd_apitoken = PStr ''TOKEN'', base_url = ''https://api.real-debrid.com/rest/1.0'',
                 header = [(''Authorization'', ''Bearer TOKEN'')], error_codes = JObj []\<rparr>,
       network = (\<lambda>req. Inl Timeout), files = (\<lambda>name. None), sent = [], logged = []\<rparr>) =
     Inl Timeout \<and>
   fst (RD_delete ''/settings/avatarDelete''
      \<lparr>client = \<lparr>rd_apitoken = PStr ''TOKEN'', base_url = ''https://api.real-debrid.com/rest/1.0'',
                 header = [(''Authorization'', ''Bearer TOKEN'')], error_codes = JObj []\<rparr>,
       network = (\<lambda>req. Inl ConnectionError), files = (\<lambda>name. None), sent = [], logged = []\<rparr>) =
     Inl ConnectionError \<and>
   fst (RD_put ''/settings/avatarFile'' ''avatar.png'' []
      \<lparr>client = \<lparr>rd_apitoken = PStr ''TOKEN'', base_url = ''https://api.real-debrid.com/rest/1.0'',
                 header = [(''Authorization'', ''Bearer TOKEN'')], error_codes = JObj []\<rparr>,
       network = (\<lambda>req. Inl Timeout), files = (\<lambda>name. Some ''PNG''), sent = [], logged = []\<rparr>) =
     Inl Timeout"
  by (simp add: RD_get_eq RD_post_eq RD_delete_eq RD_put_eq)

text \<open>
  C3: \<^verbatim>\<open>RD.__init__\<close> raises \<^verbatim>\<open>ValueError\<close> for the empty string and for a missing token
  that the environment does not supply either, whatever the state of the error-code file. For
  a non-empty token string it returns the client, with that token stored, when the
  error-code file loads; when the load raises, the constructor raises the same exception.
\<close>

theorem RD_init_token:
  "(api_token = PStr [] \<or> (api_token = PNone \<and> getenv ''RD_APITOKEN'' = None) \<longrightarrow>
      RD_init getenv loaded api_token =
        Inl (ValueError ''API Token is empty, please provide a valid token.'')) \<and>
   (t \<noteq> [] \<longrightarrow>
      RD_init getenv (Inr table) (PStr t) =
        Inr \<lparr>rd_apitoken = PStr t, base_url = ''https://api.real-debrid.com/rest/1.0'',
             header = [(''Authorization'', ''Bearer '' @ t)], error_codes = table\<rparr>) \<and>
   (t \<noteq> [] \<longrightarrow> RD_init getenv (Inl e) (PStr t) = Inl e)"
  by (auto simp: RD_init_def)

theorem RD_init_token_witness:
  "RD_init (\<lambda>name. None) (Inl FileNotFoundError) PNone =
     Inl (ValueError ''API Token is empty, please provide a valid token.'') \<and>
   RD_init (\<lambda>name. Some ''FROM_ENV'') (Inr (JObj [])) (PStr []) =
     Inl (ValueError ''API Token is empty, please provide a valid token.'') \<and>
   ''TOKEN'' \<noteq> [] \<and>
   RD_init (\<lambda>name. None) (Inr (JObj [(''8'', JStr ''Bad token (expired, invalid)'')]))
       (PStr ''TOKEN'') =
     Inr \<lparr>rd_apitoken = PStr ''TOKEN'', base_url = ''https://api.real-debrid.com/rest/1.0'',
          header = [(''Authorization'', ''Bearer TOKEN'')],
          error_codes = JObj [(''8'', JStr ''Bad token (expired, invalid)'')]\<rparr> \<and>
   RD_init (\<lambda>name. None) (Inl JSONDecodeError) (PStr ''TOKEN'') = Inl JSONDecodeError"
  using RD_init_token [of PNone "\<lambda>name. None" "Inl FileNotFoundError" "''TOKEN''"
      "JObj [(''8'', JStr ''Bad token (expired, invalid)'')]" JSONDecodeError]
    RD_init_token [of "PStr []" "\<lambda>name. Some ''FROM_ENV''" "Inr (JObj [])" "''TOKEN''"
      "JObj [(''8'', JStr ''Bad token (expired, invalid)'')]" JSONDecodeError]
  by simp

text \<open>
  The non-empty token \<^verbatim>\<open>TOKEN\<close>, passed explicitly, with no file \<^verbatim>\<open>error_codes.json\<close>
  beside the module: the constructor does not return a client, line 30 raises
  \<^verbatim>\<open>FileNotFoundError\<close>.
\<close>

theorem RD_init_without_table_raises:
  "RD_init (\<lambda>name. None) (Inl FileNotFoundError) (PStr ''TOKEN'') = Inl FileNotFoundError"
  by (simp add: RD_init_def)

text \<open>
  C5: when \<^verbatim>\<open>.json()\<close> cannot decode the body, and more generally whenever the
  inspection of the body raises, the handler returns normally with the response it was given,
  and the last record it logged is the exception it caught.
\<close>

theorem handler_catches_inspection_failure:
  "(decoded request = None \<longrightarrow>
      handler request s =
        (Inr request,
         s\<lparr>logged := logged s @
              (case raise_for_status request of None \<Rightarrow> [] | Some err \<Rightarrow> [LogException err]) @
              [LogHandlingFailure JSONDecodeError]\<rparr>)) \<and>
   (inspect_error_code (client s) request = Inl e \<longrightarrow>
      handler request s =
        (Inr request,
         s\<lparr>logged := logged s @
              (case raise_for_status request of None \<Rightarrow> [] | Some err \<Rightarrow> [LogException err]) @
              [LogHandlingFailure e]\<rparr>))"
  by (simp add: handler_eq inspect_undecodable)

theorem handler_catches_inspection_failure_witness:
  "decoded \<lparr>status_code = 502, content = ''<html>Bad Gateway</html>'', decoded = None\<rparr> = None \<and>
   handler \<lparr>status_code = 502, content = ''<html>Bad Gateway</html>'', decoded = None\<rparr>
      \<lparr>client = \<lparr>rd_apitoken = PStr ''TOKEN'', base_url = ''https://api.real-debrid.com/rest/1.0'',
                 header = [(''Authorization'', ''Bearer TOKEN'')], error_codes = JObj []\<rparr>,
       network = (\<lambda>req. Inl ConnectionError), files = (\<lambda>name. None), sent = [], logged = []\<rparr> =
     (Inr \<lparr>status_code = 502, content = ''<html>Bad Gateway</html>'', decoded = None\<rparr>,
      \<lparr>client = \<lparr>rd_apitoken = PStr ''TOKEN'', base_url = ''https://api.real-debrid.com/rest/1.0'',
                 header = [(''Authorization'', ''Bearer TOKEN'')], error_codes = JObj []\<rparr>,
       network = (\<lambda>req. Inl ConnectionError), files = (\<lambda>name. None), sent = [],
       logged = [LogException (HTTPError 502), LogHandlingFailure JSONDecodeError]\<rparr>) \<and>
   inspect_error_code
      \<lparr>rd_apitoken = PStr ''TOKEN'', base_url = ''https://api.real-debrid.com/rest/1.0'',
       header = [(''Authorization'', ''Bearer TOKEN'')], error_codes = JObj []\<rparr>
      \<lparr>status_code = 200, content = ''5'', decoded = Some (JInt 5)\<rparr> = Inl TypeError \<and>
   handler \<lparr>status_code = 200, content = ''5'', decoded = Some (JInt 5)\<rparr>
      \<lparr>client = \<lparr>rd_apitoken = PStr ''TOKEN'', base_url = ''https://api.real-debrid.com/rest/1.0'',
                 header = [(''Authorization'', ''Bearer TOKEN'')], error_codes = JObj []\<rparr>,
       network = (\<lambda>req. Inl ConnectionError), files = (\<lambda>name. None), sent = [], logged = []\<rparr> =
     (Inr \<lparr>status_code = 200, content = ''5'', decoded = Some (JInt 5)\<rparr>,
      \<lparr>client = \<lparr>rd_apitoken = PStr ''TOKEN'', base_url = ''https://api.real-debrid.com/rest/1.0'',
                 header = [(''Authorization'', ''Bearer TOKEN'')], error_codes = JObj []\<rparr>,
       network = (\<lambda>req. Inl ConnectionError), files = (\<lambda>name. None), sent = [],
       logged = [LogHandlingFailure TypeError]\<rparr>)"
  using handler_catches_inspection_failure
    [of "\<lparr>status_code = 502, content = ''<html>Bad Gateway</html>'', decoded = None\<rparr>"
        "\<lparr>client = \<lparr>rd_apitoken = PStr ''TOKEN'', base_url = ''https://api.real-debrid.com/rest/1.0'',
                 header = [(''Authorization'', ''Bearer TOKEN'')], error_codes = JObj []\<rparr>,
       network = (\<lambda>req. Inl ConnectionError), files = (\<lambda>name. None), sent = [], logged = []\<rparr>"
        JSONDecodeError]
    handler_catches_inspection_failure
    [of "\<lparr>status_code = 200, content = ''5'', decoded = Some (JInt 5)\<rparr>"
        "\<lparr>client = \<lparr>rd_apitoken = PStr ''TOKEN'', base_url = ''https://api.real-debrid.com/rest/1.0'',
                 header = [(''Authorization'', ''Bearer TOKEN'')], error_codes = JObj []\<rparr>,
       network = (\<lambda>req. Inl ConnectionError), files = (\<lambda>name. None), sent = [], logged = []\<rparr>"
        TypeError]
  by (simp add: inspect_error_code_def response_json_def raise_for_status_def)

text \<open>
  C6: for every string \<open>magnet\<close>, \<^verbatim>\<open>torrents.add_magnet\<close> issues exactly one request, a
  POST to \<^verbatim>\<open>/torrents/addMagnet\<close> whose form field \<^verbatim>\<open>magnet\<close> is
  \<^verbatim>\<open>magnet:?xt=urn:btih:\<close> followed by the string; for \<^verbatim>\<open>ABCDEF\<close> it is
  \<^verbatim>\<open>magnet:?xt=urn:btih:ABCDEF\<close>.
\<close>

theorem add_magnet_request:
  "sent (snd (Torrents_add_magnet (PStr magnet) host s)) =
     sent s @
     [\<lparr>http_method = POST, url = base_url (client s) @ ''/torrents/addMagnet'',
       headers = header (client s), params = [],
       data = Form [(''magnet'', PStr (''magnet:?xt=urn:btih:'' @ magnet)),
                    (''host'', dflt_None host)]\<rparr>]"
  by (simp add: Torrents_add_magnet_def Let_def snd_raw RD_post_eq handler_eq split: sum.split)

theorem add_magnet_request_witness:
  "sent (snd (Torrents_add_magnet (PStr ''ABCDEF'') None
      \<lparr>client = \<lparr>rd_apitoken = PStr ''TOKEN'', base_url = ''https://api.real-debrid.com/rest/1.0'',
                 header = [(''Authorization'', ''Bearer TOKEN'')], error_codes = JObj []\<rparr>,
       network = (\<lambda>req. Inr \<lparr>status_code = 201, content = ''{}'', decoded = Some (JObj [])\<rparr>),
       files = (\<lambda>name. None), sent = [], logged = []\<rparr>)) =
     [\<lparr>http_method = POST, url = ''https://api.real-debrid.com/rest/1.0/torrents/addMagnet'',
       headers = [(''Authorization'', ''Bearer TOKEN'')], params = [],
       data = Form [(''magnet'', PStr ''magnet:?xt=urn:btih:ABCDEF''), (''host'', PNone)]\<rparr>]"
  using add_magnet_request [of "''ABCDEF''" None
      "\<lparr>client = \<lparr>rd_apitoken = PStr ''TOKEN'', base_url = ''https://api.real-debrid.com/rest/1.0'',
                 header = [(''Authorization'', ''Bearer TOKEN'')], error_codes = JObj []\<rparr>,
       network = (\<lambda>req. Inr \<lparr>status_code = 201, content = ''{}'', decoded = Some (JObj [])\<rparr>),
       files = (\<lambda>name. None), sent = [], logged = []\<rparr>"]
  by (simp add: dflt_None_def)

text \<open>
  C7: \<^verbatim>\<open>downloads.get\<close> and \<^verbatim>\<open>torrents.get\<close> called with no argument do what they do
  when every optional parameter is passed as \<^verbatim>\<open>None\<close>: the same result and the same
  state, in every state.
\<close>

theorem listing_defaults:
  "Downloads_get None None None s = Downloads_get (Some PNone) (Some PNone) (Some PNone) s \<and>
   Torrents_get None None None None s =
     Torrents_get (Some PNone) (Some PNone) (Some PNone) (Some PNone) s"
  by (simp add: Downloads_get_def Torrents_get_def dflt_None_def)

theorem listing_defaults_witness:
  "fst (Downloads_get None None None
      \<lparr>client = \<lparr>rd_apitoken = PStr ''TOKEN'', base_url = ''https://api.real-debrid.com/rest/1.0'',
                 header = [(''Authorization'', ''Bearer TOKEN'')], error_codes = JObj []\<rparr>,
       network = (\<lambda>req. Inr \<lparr>status_code = 200, content = ''[]'', decoded = Some (JArr [])\<rparr>),
       files = (\<lambda>name. None), sent = [], logged = []\<rparr>) =
     Inr (Raw \<lparr>status_code = 200, content = ''[]'', decoded = Some (JArr [])\<rparr>) \<and>
   fst (Downloads_get (Some PNone) (Some PNone) (Some PNone)
      \<lparr>client = \<lparr>rd_apitoken = PStr ''TOKEN'', base_url = ''https://api.real-debrid.com/rest/1.0'',
                 header = [(''Authorization'', ''Bearer TOKEN'')], error_codes = JObj []\<rparr>,
       network = (\<lambda>req. Inr \<lparr>status_code = 200, content = ''[]'', decoded = Some (JArr [])\<rparr>),
       files = (\<lambda>name. None), sent = [], logged = []\<rparr>) =
     Inr (Raw \<lparr>status_code = 200, content = ''[]'', decoded = Some (JArr [])\<rparr>)"
  using listing_defaults
    [of "\<lparr>client = \<lparr>rd_apitoken = PStr ''TOKEN'', base_url = ''https://api.real-debrid.com/rest/1.0'',
                 header = [(''Authorization'', ''Bearer TOKEN'')], error_codes = JObj []\<rparr>,
       network = (\<lambda>req. Inr \<lparr>status_code = 200, content = ''[]'', decoded = Some (JArr [])\<rparr>),
       files = (\<lambda>name. None), sent = [], logged = []\<rparr>"]
  by (simp add: Downloads_get_def dflt_None_def RD_get_eq handler_eq raw_def
        inspect_error_code_def response_json_def raise_for_status_def)

text \<open>
  C10: against a service whose every answer has a body that is not JSON, each of the seven
  methods that end in \<^verbatim>\<open>.json()\<close> raises \<^verbatim>\<open>JSONDecodeError\<close> to its caller, after the
  handler has caught and logged the same failure of its own inspection; every other
  operation returns the raw response (or, for an upload, fails to open the file).
\<close>

theorem decode_error_leaves_json_methods:
  assumes "\<forall>req. \<exists>r. network s req = Inr r \<and> decoded r = None"
  shows "(decodes_body op \<longrightarrow>
            fst (perform op s) = Inl JSONDecodeError \<and>
            (\<exists>ms. logged (snd (perform op s)) =
                    logged s @ ms @ [LogHandlingFailure JSONDecodeError])) \<and>
         (\<not> decodes_body op \<longrightarrow>
            (\<exists>r. fst (perform op s) = Inr (Raw r)) \<or>
            fst (perform op s) = Inl FileNotFoundError)"
  using dot_json_RD_get [OF assms] dot_json_RD_post [OF assms] raw_RD_get [OF assms]
    raw_RD_post [OF assms] raw_RD_delete [OF assms] raw_RD_put [OF assms] raw_handler
  by (cases op) (simp_all add: method_defs Let_def)

theorem decode_error_leaves_json_methods_witness:
  "(\<forall>req. \<exists>r. (\<lambda>req. Inr \<lparr>status_code = 200, content = ''<html>'', decoded = None\<rparr>) req =
        (Inr r :: py_exception + response) \<and> decoded r = None) \<and>
   perform Op_User_get
      \<lparr>client = \<lparr>rd_apitoken = PStr ''TOKEN'', base_url = ''https://api.real-debrid.com/rest/1.0'',
                 header = [(''Authorization'', ''Bearer TOKEN'')], error_codes = JObj []\<rparr>,
       network = (\<lambda>req. Inr \<lparr>status_code = 200, content = ''<html>'', decoded = None\<rparr>),
       files = (\<lambda>name. None), sent = [], logged = []\<rparr> =
     (Inl JSONDecodeError,
      \<lparr>client = \<lparr>rd_apitoken = PStr ''TOKEN'', base_url = ''https://api.real-debrid.com/rest/1.0'',
                 header = [(''Authorization'', ''Bearer TOKEN'')], error_codes = JObj []\<rparr>,
       network = (\<lambda>req. Inr \<lparr>status_code = 200, content = ''<html>'', decoded = None\<rparr>),
       files = (\<lambda>name. None),
       sent = [\<lparr>http_method = GET, url = ''https://api.real-debrid.com/rest/1.0/user'',
                headers = [(''Authorization'', ''Bearer TOKEN'')], params = [], data = NoBody\<rparr>],
       logged = [LogHandlingFailure JSONDecodeError]\<rparr>) \<and>
   fst (perform Op_Hosts_get
      \<lparr>client = \<lparr>rd_apitoken = PStr ''TOKEN'', base_url = ''https://api.real-debrid.com/rest/1.0'',
                 header = [(''Authorization'', ''Bearer TOKEN'')], error_codes = JObj []\<rparr>,
       network = (\<lambda>req. Inr \<lparr>status_code = 200, content = ''<html>'', decoded = None\<rparr>),
       files = (\<lambda>name. None), sent = [], logged = []\<rparr>) =
     Inr (Raw \<lparr>status_code = 200, content = ''<html>'', decoded = None\<rparr>)"
  using decode_error_leaves_json_methods
    [of "\<lparr>client = \<lparr>rd_apitoken = PStr ''TOKEN'', base_url = ''https://api.real-debrid.com/rest/1.0'',
                 header = [(''Authorization'', ''Bearer TOKEN'')], error_codes = JObj []\<rparr>,
       network = (\<lambda>req. Inr \<lparr>status_code = 200, content = ''<html>'', decoded = None\<rparr>),
       files = (\<lambda>name. None), sent = [], logged = []\<rparr>" Op_User_get]
  by (simp add: User_get_def Hosts_get_def RD_get_eq handler_eq dot_json_def raw_def
        response_json_def inspect_undecodable raise_for_status_def)

end
